theory Spec2Isabelle
  imports Complex_Main "HOL-Library.Product_Lexorder" "HOL-Library.List_Lexorder"
    "HOL-Library.Char_ord" "HOL-Library.AList" "HOL-Library.Multiset"
begin

section \<open>Data model of \<open>rtlive/preprocessing.py\<close>\<close>

text \<open>
  A timestamp of a daily series is its calendar date \<open>(year, month, day)\<close>; the
  lexicographic order of the triple is the order of the timestamps.  A count is a
  float or NaN: \<open>None\<close> is NaN.  The values are only compared, copied and clipped, so
  the reals stand for the floats.
\<close>

type_synonym date = "int \<times> int \<times> int"
type_synonym val = "real option"

definition year :: "date \<Rightarrow> int" where
  "year d = fst d"

text \<open>\<open>(b - a).days\<close>: the difference of the proleptic Gregorian day numbers.\<close>

definition toordinal :: "date \<Rightarrow> int" where
  "toordinal dt =
     (case dt of (y, m, d) \<Rightarrow>
        let y' = (if m \<le> 2 then y - 1 else y);
            era = y' div 400;
            yoe = y' - era * 400;
            doy = (153 * (if m > 2 then m - 3 else m + 9) + 2) div 5 + d - 1;
            doe = yoe * 365 + yoe div 4 - yoe div 100 + doy
        in era * 146097 + doe - 305)"

text \<open>
  A \<open>pandas.Series\<close>: the name of its index, its own name, and its rows (index label and
  value) in the order they are stored.
\<close>

record series =
  index_name :: "string option"
  s_name :: "string option"
  s_rows :: "(date \<times> val) list"

text \<open>
  Every \<open>raise\<close> of the source and every failing library call is one constructor.  In
  Python \<open>LookupKeyError\<close>, \<open>UnknownCountry\<close>, \<open>UnknownRegion\<close> and \<open>ColumnKeyError\<close>
  are all \<open>KeyError\<close>; \<open>ConfigurationError\<close> is the \<open>ValueError\<close> of
  \<open>predict_testcounts\<close>; \<open>ReindexError\<close> is the \<open>ValueError\<close> pandas raises when it
  aligns on an index with duplicate labels.
\<close>

datatype error =
    LookupKeyError string
  | UnknownCountry string
  | UnknownRegion string string
  | ConfigurationError
  | IndexError
  | ModelFitError
  | ReindexError
  | AssertionError
  | ColumnKeyError string

text \<open>
  The region selector: \<open>None\<close>, one string, or a list of strings.
\<close>

datatype region_sel = RNone | RStr string | RList "string list"

text \<open>Python's truth value of the selector (\<open>not region\<close> is its negation).\<close>

fun truthy :: "region_sel \<Rightarrow> bool" where
  "truthy RNone = False"
| "truthy (RStr s) = (s \<noteq> [])"
| "truthy (RList l) = (l \<noteq> [])"

text \<open>
  \<open>NamedDates\<close>: a dict from date to holiday name, kept as an association list in
  insertion order.  \<open>dict.update\<close> writes the other dict's items one by one: an
  existing key keeps its place and takes the new name, a new key goes to the end.
\<close>

type_synonym named_dates = "(date \<times> string) list"

definition dict_update :: "('k \<times> 'v) list \<Rightarrow> ('k \<times> 'v) list \<Rightarrow> ('k \<times> 'v) list" where
  "dict_update d other = fold (\<lambda>(k, v). AList.update k v) other d"

subsection \<open>The external capabilities\<close>

text \<open>
  A country class of the \<open>holidays\<close> package.  Its base class declares
  \<open>PROVINCES = []\<close>, so that attribute is always there; \<open>STATES\<close> exists only on some
  classes and the source probes it with \<open>hasattr\<close>.  \<open>construct\<close> is the constructor
  call \<open>country_cls(years=..., prov=..., state=...)\<close>.
\<close>

datatype subdiv = National | Prov string | State string

record country_cls =
  STATES :: "string list option"
  PROVINCES :: "string list"
  construct :: "int set \<Rightarrow> subdiv \<Rightarrow> named_dates"

text \<open>
  The dict of keyword arguments of \<open>fbprophet.Prophet\<close>, and the frames given to
  \<open>fit\<close> and \<open>predict\<close>: the rows \<open>ds\<close>, \<open>y\<close> and, for logistic growth, the constant
  columns \<open>floor\<close> and \<open>cap\<close>.
\<close>

type_synonym holiday_df = "(date \<times> string \<times> string) list"

datatype kwval = KStr string | KBool bool | KInt int | KHolidays holiday_df

type_synonym kwargs = "(string \<times> kwval) list"

record frame =
  f_rows :: "(date \<times> val) list"
  f_floor_cap :: "(real \<times> val) option"

type_synonym forecast = "(date \<times> real) list"

text \<open>
  The environment of a call: \<open>iso3166.countries.get(c).alpha3\<close> (\<open>None\<close> where the
  lookup raises), \<open>getattr(holidays, code)\<close> (\<open>None\<close> where \<open>hasattr\<close> is false), and
  the forecasting model with its two operations.  \<open>'m\<close> is the fitted model.

  \<open>sort_index\<close> sorts with numpy's quicksort, which is not stable: the order it gives
  to rows with equal dates is the library's own.  \<open>quicksort_ties\<close> is that order, as a
  second sort key computed from the rows to be sorted.
\<close>

record 'm env =
  countries_get :: "string \<Rightarrow> string option"
  holidays_getattr :: "string \<Rightarrow> country_cls option"
  Prophet_fit :: "kwargs \<Rightarrow> frame \<Rightarrow> error + 'm"
  Prophet_predict :: "'m \<Rightarrow> frame \<Rightarrow> forecast"
  quicksort_ties :: "(date \<times> val) list \<Rightarrow> date \<times> val \<Rightarrow> nat"

section \<open>\<open>get_holidays\<close>\<close>

text \<open>Lines 53 to 59: the list of regions the loop of \<open>get_holidays\<close> runs over.\<close>

definition requested_regions :: "country_cls \<Rightarrow> region_sel \<Rightarrow> string list" where
  "requested_regions country_cls region =
     (let region' = (if \<not> truthy region then RList [] else region)
      in if region' = RStr ''all''
         then (case STATES country_cls of Some sts \<Rightarrow> sts | None \<Rightarrow> PROVINCES country_cls)
         else (case region' of RNone \<Rightarrow> [] | RStr s \<Rightarrow> [s] | RList l \<Rightarrow> l))"

text \<open>Lines 62 to 72: the loop, with \<open>result\<close> as the accumulator.\<close>

fun merge_regions ::
  "country_cls \<Rightarrow> string \<Rightarrow> int set \<Rightarrow> string list \<Rightarrow> named_dates \<Rightarrow> error + named_dates"
where
  "merge_regions country_cls country years [] result = Inr result"
| "merge_regions country_cls country years (region # regions) result =
     (let is_province = (region \<in> set (PROVINCES country_cls));
          is_state = (case STATES country_cls of None \<Rightarrow> False | Some sts \<Rightarrow> region \<in> set sts)
      in if is_province
         then merge_regions country_cls country years regions
                (dict_update result (construct country_cls years (Prov region)))
         else if is_state
         then merge_regions country_cls country years regions
                (dict_update result (construct country_cls years (State region)))
         else Inl (UnknownRegion region country))"

definition get_holidays ::
  "'m env \<Rightarrow> string \<Rightarrow> region_sel \<Rightarrow> int set \<Rightarrow> error + named_dates"
where
  "get_holidays env country region years =
     (case countries_get env country of
        None \<Rightarrow> Inl (LookupKeyError country)
      | Some alpha3 \<Rightarrow>
          (case holidays_getattr env alpha3 of
             None \<Rightarrow> Inl (UnknownCountry alpha3)
           | Some country_cls \<Rightarrow>
               merge_regions country_cls alpha3 years
                 (requested_regions country_cls region)
                 (construct country_cls years National)))"

section \<open>\<open>predict_testcounts\<close>\<close>

definition s_index :: "series \<Rightarrow> date list" where
  "s_index s = map fst (s_rows s)"

definition s_values :: "series \<Rightarrow> val list" where
  "s_values s = map snd (s_rows s)"

text \<open>\<open>testcounts.index[0]\<close> raises \<open>IndexError\<close> on an empty series.\<close>

definition index_first :: "series \<Rightarrow> error + date" where
  "index_first s = (case s_index s of [] \<Rightarrow> Inl IndexError | d # _ \<Rightarrow> Inr d)"

definition index_last :: "series \<Rightarrow> error + date" where
  "index_last s = (case s_index s of [] \<Rightarrow> Inl IndexError | d # ds \<Rightarrow> Inr (last (d # ds)))"

text \<open>
  \<open>testcounts.sort_index(inplace=True)\<close>: the rows in ascending order of their dates.
  Rows with equal dates come in the order of the library's second key; the stable sort
  by date that follows keeps it.  Rows with different dates are ordered by date whatever
  that key is.
\<close>

definition sort_index :: "'m env \<Rightarrow> series \<Rightarrow> series" where
  "sort_index env s =
     s\<lparr>s_rows := sort_key fst (sort_key (quicksort_ties env (s_rows s)) (s_rows s))\<rparr>"

text \<open>Lines 138 to 144: the two masks, one entry per row.\<close>

definition mask_fit_of :: "series \<Rightarrow> date \<Rightarrow> bool list" where
  "mask_fit_of testcounts ignore_before = map (\<lambda>d. ignore_before \<le> d) (s_index testcounts)"

definition mask_predict_of :: "series \<Rightarrow> date \<Rightarrow> bool \<Rightarrow> bool list" where
  "mask_predict_of testcounts ignore_before keep_data =
     (if keep_data
      then map (\<lambda>(d, v). ignore_before \<le> d \<and> v = None) (s_rows testcounts)
      else map (\<lambda>d. ignore_before \<le> d) (s_index testcounts))"

text \<open>Line 146: \<open>set([testcounts.index[0].year, testcounts.index[-1].year])\<close>.\<close>

definition years_of :: "date \<Rightarrow> date \<Rightarrow> int set" where
  "years_of first_date last_date = {year first_date, year last_date}"

text \<open>\<open>len(numpy.atleast_1d(region))\<close>: \<open>None\<close> and a string become one-element arrays.\<close>

fun len_regions :: "region_sel \<Rightarrow> nat" where
  "len_regions RNone = 1"
| "len_regions (RStr s) = 1"
| "len_regions (RList l) = length l"

text \<open>
  The calls that leave the function, in the order they are made: each call of
  \<open>get_holidays\<close> with its arguments, \<open>m.fit\<close> and \<open>m.predict\<close>.
\<close>

datatype event = GetHolidays string region_sel "int set" | Fit | Predict

text \<open>
  Lines 155 to 180: the holidays used and the regressor table with the columns
  \<open>ds\<close>, \<open>name\<close>, \<open>holiday\<close>.
\<close>

definition holiday_table ::
  "'m env \<Rightarrow> string \<Rightarrow> region_sel \<Rightarrow> bool \<Rightarrow> int set
     \<Rightarrow> event list \<times> (error + named_dates \<times> holiday_df)"
where
  "holiday_table env country region regional_holidays years =
     (if (region = RStr ''all'' \<or> len_regions region > 1) \<and> regional_holidays
      then (case get_holidays env country region years of
              Inl e \<Rightarrow> ([GetHolidays country region years], Inl e)
            | Inr all_holidays \<Rightarrow>
                (case get_holidays env country RNone years of
                   Inl e \<Rightarrow>
                     ([GetHolidays country region years, GetHolidays country RNone years], Inl e)
                 | Inr national_holidays \<Rightarrow>
                     ([GetHolidays country region years, GetHolidays country RNone years],
                      Inr (all_holidays,
                           map (\<lambda>(date, name).
                                  (date, name,
                                   if date \<in> fst ` set national_holidays
                                   then ''national'' else ''regional''))
                               all_holidays))))
      else (case get_holidays env country RNone years of
              Inl e \<Rightarrow> ([GetHolidays country RNone years], Inl e)
            | Inr all_holidays \<Rightarrow>
                ([GetHolidays country RNone years],
                 Inr (all_holidays, map (\<lambda>(date, name). (date, name, ''holiday'')) all_holidays))))"

text \<open>
  Lines 183 to 196.  \<open>int(numpy.ceil(days / 30))\<close> is the ceiling of the quotient,
  written with the floor division of the integers.
\<close>

definition prophet_kwargs_of :: "holiday_df \<Rightarrow> int \<Rightarrow> kwargs \<Rightarrow> kwargs" where
  "prophet_kwargs_of holiday_df days kwargs =
     dict_update
       [(''growth'', KStr ''logistic''),
        (''seasonality_mode'', KStr ''multiplicative''),
        (''daily_seasonality'', KBool False),
        (''weekly_seasonality'', KBool True),
        (''yearly_seasonality'', KBool False),
        (''holidays'', KHolidays holiday_df),
        (''mcmc_samples'', KInt 500),
        (''n_changepoints'', KInt (- ((- days) div 30)))]
       kwargs"

text \<open>\<open>numpy.max(testcounts)\<close>: the largest value that is not NaN, NaN when there is none.\<close>

definition series_max :: "val list \<Rightarrow> val" where
  "series_max vs =
     (case List.map_filter (\<lambda>v. v) vs of [] \<Rightarrow> None | x # xs \<Rightarrow> Some (fold max xs x))"

text \<open>\<open>testcounts.loc[mask]\<close>: the rows whose mask entry is true.\<close>

definition loc_mask :: "bool list \<Rightarrow> 'a list \<Rightarrow> 'a list" where
  "loc_mask msk xs = map snd (filter fst (zip msk xs))"

text \<open>\<open>numpy.clip(a, a_min, a_max)\<close> is \<open>minimum(a_max, maximum(a, a_min))\<close>.\<close>

definition clip :: "real \<Rightarrow> real \<Rightarrow> real \<Rightarrow> real" where
  "clip a a_min a_max = min a_max (max a a_min)"

text \<open>\<open>forecast.yhat.max()\<close>, NaN for a forecast without rows.\<close>

definition yhat_max :: "forecast \<Rightarrow> val" where
  "yhat_max forecast =
     (case map snd forecast of [] \<Rightarrow> None | y # ys \<Rightarrow> Some (fold max ys y))"

text \<open>\<open>numpy.clip(forecast.set_index("ds").yhat, 0, forecast.yhat.max())\<close>.\<close>

definition clipped :: "forecast \<Rightarrow> forecast" where
  "clipped forecast =
     (case yhat_max forecast of
        None \<Rightarrow> []
      | Some m \<Rightarrow> map (\<lambda>(ds, yhat). (ds, clip yhat 0 m)) forecast)"

text \<open>
  \<open>result.loc[mask] = value\<close> with a series on the right: pandas aligns \<open>value\<close> on the
  labels of the selected rows.  A selected row takes the value that \<open>value\<close> has at its
  label, NaN where \<open>value\<close> has no such label; the other rows are untouched.
  Reindexing a series whose index has duplicate labels raises.
\<close>

definition loc_assign ::
  "bool list \<Rightarrow> (date \<times> val) list \<Rightarrow> forecast \<Rightarrow> error + (date \<times> val) list"
where
  "loc_assign msk rows value =
     (if \<not> distinct (map fst value) then Inl ReindexError
      else Inr (map (\<lambda>(b, (d, v)). if b then (d, map_of value d) else (d, v))
                    (zip msk rows)))"

type_synonym 'm forecasting_result = "series \<times> 'm \<times> forecast \<times> named_dates"

text \<open>Lines 182 to 227: configuration, fit, prediction and the result series.\<close>

definition fit_and_predict ::
  "'m env \<Rightarrow> series \<Rightarrow> bool list \<Rightarrow> bool list \<Rightarrow> date \<Rightarrow> date \<Rightarrow> named_dates \<Rightarrow> holiday_df
     \<Rightarrow> kwargs \<Rightarrow> event list \<times> (error + 'm forecasting_result)"
where
  "fit_and_predict env testcounts mask_fit mask_predict first_date last_date
       all_holidays holiday_df kwargs =
     (let days = toordinal last_date - toordinal first_date;
          prophet_kwargs = prophet_kwargs_of holiday_df days kwargs;
          logistic = (map_of prophet_kwargs ''growth'' = Some (KStr ''logistic''));
          cap = series_max (s_values testcounts);
          df_fit = \<lparr>f_rows = loc_mask mask_fit (s_rows testcounts),
                    f_floor_cap = (if logistic then Some (0, cap) else None)\<rparr>
      in case Prophet_fit env prophet_kwargs df_fit of
           Inl e \<Rightarrow> ([Fit], Inl e)
         | Inr m \<Rightarrow>
             (let df_predict = \<lparr>f_rows = s_rows testcounts,
                                f_floor_cap = (if logistic then Some (0, cap) else None)\<rparr>;
                  forecast = Prophet_predict env m df_predict
              in case loc_assign mask_predict (s_rows testcounts) (clipped forecast) of
                   Inl e \<Rightarrow> ([Fit, Predict], Inl e)
                 | Inr rows \<Rightarrow>
                     ([Fit, Predict],
                      Inr (\<lparr>index_name = index_name testcounts,
                            s_name = Some ''testcount'',
                            s_rows = rows\<rparr>,
                           m, forecast, all_holidays))))"

text \<open>
  Lines 130 to 136: the caller's series after the renaming, the default of
  \<open>ignore_before\<close> and the sort, with the floor in use.  \<open>index[0]\<close> is read before the
  sort; when it raises, the series has been renamed and not yet sorted.
\<close>

definition normalise :: "'m env \<Rightarrow> series \<Rightarrow> date option \<Rightarrow> series \<times> (error + date)" where
  "normalise env testcounts ignore_before =
     (let renamed = testcounts\<lparr>index_name := Some ''date'', s_name := Some ''total''\<rparr>
      in case (case ignore_before of Some d \<Rightarrow> Inr d | None \<Rightarrow> index_first renamed) of
           Inl e \<Rightarrow> (renamed, Inl e)
         | Inr floor_date \<Rightarrow> (sort_index env renamed, Inr floor_date))"

text \<open>
  The whole function.  The result is the caller's series as the call leaves it, the
  calls made, and the exception or the returned tuple.
\<close>

definition predict_testcounts ::
  "'m env \<Rightarrow> series \<Rightarrow> string \<Rightarrow> region_sel \<Rightarrow> bool \<Rightarrow> bool \<Rightarrow> date option \<Rightarrow> kwargs
     \<Rightarrow> series \<times> event list \<times> (error + 'm forecasting_result)"
where
  "predict_testcounts env testcounts country region regional_holidays keep_data
       ignore_before kwargs =
     (case normalise env testcounts ignore_before of
        (testcounts', Inl e) \<Rightarrow> (testcounts', [], Inl e)
      | (testcounts', Inr floor_date) \<Rightarrow>
          (let mask_fit = mask_fit_of testcounts' floor_date;
               mask_predict = mask_predict_of testcounts' floor_date keep_data
           in case (index_first testcounts', index_last testcounts') of
                (Inr first_date, Inr last_date) \<Rightarrow>
                  (let years = years_of first_date last_date
                   in if region \<noteq> RStr ''all'' \<and> len_regions region \<le> 1 \<and> regional_holidays
                      then (testcounts', [], Inl ConfigurationError)
                      else (case holiday_table env country region regional_holidays years of
                              (evs, Inl e) \<Rightarrow> (testcounts', evs, Inl e)
                            | (evs, Inr (all_holidays, holiday_df)) \<Rightarrow>
                                (case fit_and_predict env testcounts' mask_fit mask_predict
                                        first_date last_date all_holidays holiday_df kwargs of
                                   (evs', r) \<Rightarrow> (testcounts', evs @ evs', r))))
              | _ \<Rightarrow> (testcounts', [], Inl IndexError)))"

section \<open>\<open>predict_testcounts_all_regions\<close>\<close>

text \<open>
  The input frame: its rows, each with the index \<open>[region, date]\<close> and the value of
  the column \<open>new_tests\<close>, and the column \<open>predicted_new_tests\<close> when the frame
  comes with one, as its value at each row number.  The function works on a copy of
  the frame with all its columns (line 250); other columns are not read.  The first
  level of the index is the ascending list of the regions that occur in the rows.
\<close>

record dataframe =
  df_rows :: "((string \<times> date) \<times> val) list"
  df_predicted :: "(nat \<Rightarrow> val) option"

text \<open>
  The entry of row \<open>i\<close> in the column \<open>predicted_new_tests\<close> of the frame as it is
  passed in; after the first assignment of line 276 to a frame without that column,
  the rows not assigned to are NaN.
\<close>

definition input_column :: "dataframe \<Rightarrow> nat \<Rightarrow> val" where
  "input_column df i = (case df_predicted df of None \<Rightarrow> None | Some col \<Rightarrow> col i)"

definition levels0 :: "dataframe \<Rightarrow> string list" where
  "levels0 df = sort (remdups (map (\<lambda>((region, date), v). region) (df_rows df)))"

text \<open>\<open>df.xs(region).new_tests\<close>: the rows of one region, in the order of the frame.\<close>

definition xs_new_tests :: "dataframe \<Rightarrow> string \<Rightarrow> (date \<times> val) list" where
  "xs_new_tests df region =
     map (\<lambda>((r, date), v). (date, v)) (filter (\<lambda>((r, date), v). r = region) (df_rows df))"

text \<open>\<open>sum(~new_tests_nans)\<close>: the number of observations that are not NaN.\<close>

definition n_train_of :: "(date \<times> val) list \<Rightarrow> nat" where
  "n_train_of new_tests = length (filter (\<lambda>(date, v). v \<noteq> None) new_tests)"

text \<open>
  \<open>**predict_testcounts_kwargs\<close>: the keyword arguments of \<open>predict_testcounts\<close> a caller
  may override (\<open>None\<close>: not given), and the ones passed on to the model.
\<close>

record overrides =
  o_keep_data :: "bool option"
  o_regional_holidays :: "bool option"
  o_ignore_before :: "date option option"
  o_prophet :: kwargs

text \<open>
  \<open>df.loc[region, "predicted_new_tests"] = values\<close>: the rows of the region take the
  values in order; the argument pairs each row's region with its entry of the column.
\<close>

fun assign_region :: "string \<Rightarrow> val list \<Rightarrow> (string \<times> val) list \<Rightarrow> val list" where
  "assign_region region vals [] = []"
| "assign_region region vals ((r, c) # rest) =
     (if r = region
      then (case vals of
              v # vs \<Rightarrow> v # assign_region region vs rest
            | [] \<Rightarrow> c # assign_region region [] rest)
      else c # assign_region region vals rest)"

text \<open>
  The state of the loop: the new column (\<open>None\<close> until the first assignment creates
  it, with NaN in every row), the dict \<open>results\<close>, and the regions for which
  \<open>predict_testcounts\<close> has been called, oldest first.
\<close>

record 'm batch =
  predicted_new_tests :: "val list option"
  results :: "(string \<times> 'm forecasting_result) list"
  invoked :: "string list"

text \<open>
  Lines 257 to 276: the body of the loop for a region with more than 10 observations.
  The call of \<open>predict_testcounts\<close> gets a fresh series \<open>df.xs(region).new_tests\<close>, so
  what it does to that series is not seen by the frame.
\<close>

definition impute_region ::
  "'m env \<Rightarrow> dataframe \<Rightarrow> string \<Rightarrow> overrides \<Rightarrow> string \<Rightarrow> 'm batch \<Rightarrow> 'm batch \<times> error option"
where
  "impute_region env df country ov region st =
     (let new_tests = xs_new_tests df region
      in case filter (\<lambda>(date, v). v \<noteq> None) new_tests of
           [] \<Rightarrow> (st, Some IndexError)
         | (date0, v0) # _ \<Rightarrow>
             (let keep_data = (case o_keep_data ov of Some b \<Rightarrow> b | None \<Rightarrow> True);
                  regional_holidays =
                    (case o_regional_holidays ov of Some b \<Rightarrow> b | None \<Rightarrow> False);
                  ignore_before =
                    (case o_ignore_before ov of
                       Some d \<Rightarrow> d
                     | None \<Rightarrow> Some (max (2020, 3, 15) date0));
                  kwargs = dict_update [(''growth'', KStr ''linear'')] (o_prophet ov);
                  st1 = st\<lparr>invoked := invoked st @ [region]\<rparr>
              in case predict_testcounts env
                        \<lparr>index_name = Some ''date'', s_name = Some ''new_tests'',
                         s_rows = new_tests\<rparr>
                        country (RStr region) regional_holidays keep_data
                        ignore_before kwargs of
                   (_, _, Inl e) \<Rightarrow> (st1, Some e)
                 | (_, _, Inr res) \<Rightarrow>
                     (let st2 = st1\<lparr>results := AList.update region res (results st1)\<rparr>;
                          result_series = fst res
                      in if s_index result_series \<noteq> map fst new_tests
                         then (st2, Some AssertionError)
                         else (st2\<lparr>predicted_new_tests :=
                                      Some (assign_region region (s_values result_series)
                                              (zip (map (\<lambda>((r, date), v). r) (df_rows df))
                                                   (case predicted_new_tests st2 of
                                                      None \<Rightarrow>
                                                        replicate (length (df_rows df)) None
                                                    | Some col \<Rightarrow> col)))\<rparr>,
                               None))))"

text \<open>Lines 253 to 280: the loop over the regions; an exception ends it.\<close>

fun forecast_regions ::
  "'m env \<Rightarrow> dataframe \<Rightarrow> string \<Rightarrow> overrides \<Rightarrow> string list \<Rightarrow> 'm batch
     \<Rightarrow> 'm batch \<times> error option"
where
  "forecast_regions env df country ov [] st = (st, None)"
| "forecast_regions env df country ov (region # regions) st =
     (let n_train = n_train_of (xs_new_tests df region)
      in if n_train > 10
         then (case impute_region env df country ov region st of
                 (st', Some e) \<Rightarrow> (st', Some e)
               | (st', None) \<Rightarrow> forecast_regions env df country ov regions st')
         else forecast_regions env df country ov regions st)"

text \<open>
  The whole function: the regions the imputer was called for, and the exception or
  the returned pair (the column \<open>predicted_new_tests\<close> with its index, and
  \<open>results\<close>).  The copy starts with the column of the input frame, if it has one.
\<close>

definition predict_testcounts_all_regions ::
  "'m env \<Rightarrow> dataframe \<Rightarrow> string \<Rightarrow> overrides
     \<Rightarrow> string list
        \<times> (error + ((string \<times> date) \<times> val) list \<times> (string \<times> 'm forecasting_result) list)"
where
  "predict_testcounts_all_regions env df country_alpha2 ov =
     (case forecast_regions env df country_alpha2 ov (levels0 df)
             \<lparr>predicted_new_tests =
                map_option (\<lambda>col. map col [0..<length (df_rows df)]) (df_predicted df),
              results = [], invoked = []\<rparr> of
        (st, Some e) \<Rightarrow> (invoked st, Inl e)
      | (st, None) \<Rightarrow>
          (case predicted_new_tests st of
             None \<Rightarrow> (invoked st, Inl (ColumnKeyError ''predicted_new_tests''))
           | Some col \<Rightarrow> (invoked st, Inr (zip (map fst (df_rows df)) col, results st))))"

section \<open>A concrete environment and concrete inputs\<close>

text \<open>
  One country with two states, known under the codes \<open>US\<close> and \<open>USA\<close>; the code
  \<open>AQ\<close> resolves to \<open>ATA\<close>, for which there are no holidays.  The model fits any
  frame with at least one row to the constant estimate 5.  The sort leaves rows with
  equal dates in the order they had.
\<close>

definition USA_cls :: country_cls where
  "USA_cls =
     \<lparr>STATES = Some [''CA'', ''NY''],
      PROVINCES = [],
      construct = (\<lambda>years sd.
         case sd of
           National \<Rightarrow> filter (\<lambda>(d, n). year d \<in> years)
                         [((2019, 1, 1), ''New Year''), ((2020, 1, 1), ''New Year''),
                          ((2021, 1, 1), ''New Year'')]
         | Prov p \<Rightarrow> []
         | State st \<Rightarrow>
             (if st = ''CA''
              then filter (\<lambda>(d, n). year d \<in> years) [((2020, 3, 31), ''Cesar Chavez Day'')]
              else []))\<rparr>"

definition ex_env :: "real env" where
  "ex_env =
     \<lparr>countries_get = (\<lambda>c. if c = ''US'' \<or> c = ''USA'' then Some ''USA''
                            else if c = ''AQ'' then Some ''ATA'' else None),
      holidays_getattr = (\<lambda>c. if c = ''USA'' then Some USA_cls else None),
      Prophet_fit = (\<lambda>kw fr. if f_rows fr = [] then Inl ModelFitError else Inr 5),
      Prophet_predict = (\<lambda>m fr. map (\<lambda>(d, v). (d, m)) (f_rows fr)),
      quicksort_ties = (\<lambda>rows r. 0)\<rparr>"

text \<open>The same environment with a model whose forecast has a row for the first date only.\<close>

definition ex_env_short :: "real env" where
  "ex_env_short = ex_env\<lparr>Prophet_predict := (\<lambda>m fr. take 1 (map (\<lambda>(d, v). (d, m)) (f_rows fr)))\<rparr>"

text \<open>Three days, the middle one missing, the first one above the model's estimate.\<close>

definition ex_series :: series where
  "ex_series =
     \<lparr>index_name = None, s_name = Some ''new_tests'',
      s_rows = [((2020, 4, 1), Some 100), ((2020, 4, 2), None), ((2020, 4, 3), Some 3)]\<rparr>"

text \<open>The same days stored out of order.\<close>

definition ex_unsorted :: series where
  "ex_unsorted =
     \<lparr>index_name = None, s_name = Some ''new_tests'',
      s_rows = [((2020, 4, 2), None), ((2020, 4, 1), Some 100), ((2020, 4, 3), Some 3)]\<rparr>"

text \<open>A series from 2019 to 2021.\<close>

definition ex_three_years :: series where
  "ex_three_years =
     \<lparr>index_name = None, s_name = Some ''new_tests'',
      s_rows = [((2019, 12, 31), Some 1), ((2020, 6, 1), None), ((2021, 1, 1), Some 2)]\<rparr>"

definition ex_empty :: series where
  "ex_empty = \<lparr>index_name = None, s_name = None, s_rows = []\<rparr>"

text \<open>
  Frames: eleven observed days in April 2020 for a region, followed by one missing
  day; and five observed days.  The last frame comes with a column
  \<open>predicted_new_tests\<close> that is 1 in every row.
\<close>

definition region_rows :: "string \<Rightarrow> int \<Rightarrow> ((string \<times> date) \<times> val) list" where
  "region_rows region n =
     map (\<lambda>i. ((region, (2020, 4, i)), Some 7)) [1..n] @ [((region, (2020, 4, n + 1)), None)]"

definition ex_df :: dataframe where
  "ex_df = \<lparr>df_rows = region_rows ''NY'' 11 @ region_rows ''WY'' 5, df_predicted = None\<rparr>"

definition ex_df_two :: dataframe where
  "ex_df_two =
     \<lparr>df_rows = region_rows ''CA'' 11 @ region_rows ''NY'' 11, df_predicted = None\<rparr>"

definition ex_df_small :: dataframe where
  "ex_df_small = \<lparr>df_rows = region_rows ''WY'' 5, df_predicted = None\<rparr>"

definition ex_df_with_column :: dataframe where
  "ex_df_with_column =
     \<lparr>df_rows = region_rows ''WY'' 5, df_predicted = Some (\<lambda>i. Some 1)\<rparr>"

text \<open>Two regions of eleven observed days; the rows of the first are stored latest first.\<close>

definition ex_df_unordered :: dataframe where
  "ex_df_unordered =
     \<lparr>df_rows = rev (region_rows ''CA'' 11) @ region_rows ''NY'' 11, df_predicted = None\<rparr>"

definition no_overrides :: overrides where
  "no_overrides =
     \<lparr>o_keep_data = None, o_regional_holidays = None, o_ignore_before = None, o_prophet = []\<rparr>"

section \<open>Facts about the operations\<close>

text \<open>What a successful call of \<open>predict_testcounts\<close> has done.\<close>

lemma zip_map_self: "map h (zip (map f xs) xs) = map (\<lambda>x. h (f x, x)) xs"
  by (induction xs) auto

lemma predict_testcounts_success:
  assumes "predict_testcounts env tc country region rh kd ib kw = (tc', evs, Inr (result, m, fc, hol))"
  shows "\<exists>floor_date. normalise env tc ib = (tc', Inr floor_date)
           \<and> s_rows tc' \<noteq> []
           \<and> loc_assign (mask_predict_of tc' floor_date kd) (s_rows tc') (clipped fc) = Inr (s_rows result)"
  using assms unfolding predict_testcounts_def fit_and_predict_def Let_def
  by (auto split: prod.splits sum.splits if_splits simp: index_first_def s_index_def split: list.splits)

lemma normalise_sorted:
  assumes "normalise env tc ib = (tc', Inr floor_date)"
  shows "s_rows tc' = sort_key fst (sort_key (quicksort_ties env (s_rows tc)) (s_rows tc))"
  using assms unfolding normalise_def Let_def sort_index_def
  by (auto split: sum.splits option.splits)

lemma loc_assign_keep:
  assumes "loc_assign (mask_predict_of tc' fl True) (s_rows tc') value = Inr rows"
  shows "rows = map (\<lambda>(d, v). if fl \<le> d \<and> v = None then (d, map_of value d) else (d, v)) (s_rows tc')"
  using assms unfolding loc_assign_def mask_predict_of_def
  by (auto simp: zip_map_self split: if_splits)

lemma loc_assign_index:
  assumes "loc_assign msk rows value = Inr rows'" "length msk = length rows"
  shows "map fst rows' = map fst rows"
proof -
  have "map fst rows' = map (fst \<circ> snd) (zip msk rows)"
    using assms(1) unfolding loc_assign_def by (auto split: if_splits)
  also have "\<dots> = map fst (map snd (zip msk rows))" by simp
  also have "\<dots> = map fst rows" using assms(2) by (simp only: map_snd_zip)
  finally show ?thesis .
qed

lemma map_insort_key: "map f (insort_key f x xs) = insort (f x) (map f xs)"
  by (induction xs) auto

lemma map_sort_key: "map f (sort_key f xs) = sort (map f xs)"
  by (induction xs) (auto simp: map_insort_key)

text \<open>
  Whatever the second key is, the sorted rows are the rows of the input, their dates
  are the dates of the input in ascending order, and with distinct dates their order is
  the one of the stable sort.
\<close>

lemma sorted_rows_mset: "mset (sort_key fst (sort_key k xs)) = mset xs"
  by simp

lemma sorted_rows_index: "map fst (sort_key fst (sort_key k xs)) = sort (map fst xs)"
proof -
  have "mset (sort (map fst (sort_key k xs))) = mset (map fst xs)" by simp
  then have "sort (map fst xs) = sort (map fst (sort_key k xs))"
    by (rule properties_for_sort) simp
  moreover have "map fst (sort_key fst (sort_key k xs)) = sort (map fst (sort_key k xs))"
    by (rule map_sort_key)
  ultimately show ?thesis by (rule ssubst)
qed

lemma sorted_rows_distinct:
  assumes "distinct (map fst xs)"
  shows "sort_key fst (sort_key k xs) = sort_key fst xs"
proof -
  have "map fst (sort_key fst (sort_key k xs)) = map fst (sort_key fst xs)"
    by (simp only: sorted_rows_index map_sort_key[of fst xs])
  moreover have "inj_on fst (set (sort_key fst (sort_key k xs)) \<union> set (sort_key fst xs))"
    using assms by (simp add: distinct_map)
  ultimately show ?thesis by (rule map_inj_on)
qed

lemma length_mask_predict: "length (mask_predict_of tc fl kd) = length (s_rows tc)"
  by (simp add: mask_predict_of_def s_index_def)


text \<open>
  The caller's series after any call, and the call that asks for regional holidays with
  at most one region.
\<close>

lemma normalise_state:
  "index_name (fst (normalise env tc ib)) = Some ''date''
   \<and> s_name (fst (normalise env tc ib)) = Some ''total''
   \<and> s_rows (fst (normalise env tc ib))
       = sort_key fst (sort_key (quicksort_ties env (s_rows tc)) (s_rows tc))"
  unfolding normalise_def Let_def sort_index_def index_first_def s_index_def
  by (auto split: option.splits list.splits)

lemma predict_testcounts_state:
  "fst (predict_testcounts env tc country region rh kd ib kw) = fst (normalise env tc ib)"
  unfolding predict_testcounts_def Let_def
  by (auto split: prod.splits sum.splits)

lemma configuration_error_run:
  assumes "s_rows tc \<noteq> []" "region \<noteq> RStr ''all''" "len_regions region \<le> 1"
  shows "snd (predict_testcounts env tc country region True kd ib kw)
           = ([], Inl ConfigurationError)"
proof -
  obtain r rs where rs: "s_rows tc = r # rs" using assms(1) by (cases "s_rows tc") auto
  obtain fl where n: "snd (normalise env tc ib) = Inr fl"
    unfolding normalise_def Let_def index_first_def s_index_def using rs
    by (cases ib) auto
  have "length (s_rows (fst (normalise env tc ib))) = length (s_rows tc)"
    using normalise_state[of env tc ib] by simp
  then have ne: "s_rows (fst (normalise env tc ib)) \<noteq> []"
    using rs by auto
  obtain tc' where tc': "normalise env tc ib = (tc', Inr fl)" using n by (cases "normalise env tc ib") auto
  have ne': "s_rows tc' \<noteq> []" using ne tc' by simp
  then obtain a as where "s_index tc' = a # as" unfolding s_index_def by (cases "s_rows tc'") auto
  then show ?thesis
    unfolding predict_testcounts_def Let_def tc' index_first_def index_last_def
    using assms(2,3) by simp
qed

text \<open>
  A requested region that is neither a province nor a state ends the loop of
  \<open>get_holidays\<close>; a loop of the batch runner over regions with too few observations
  changes nothing.
\<close>

lemma merge_regions_unknown:
  assumes "c \<in> set regions" "c \<notin> set (PROVINCES cls)"
    and "\<forall>sts. STATES cls = Some sts \<longrightarrow> c \<notin> set sts"
  shows "\<exists>r. merge_regions cls alpha3 years regions result = Inl (UnknownRegion r alpha3)"
  using assms
proof (induction regions arbitrary: result)
  case Nil
  then show ?case by simp
next
  case (Cons r regions)
  show ?case
  proof (cases "r = c")
    case True
    then show ?thesis using Cons.prems by (auto split: option.splits)
  next
    case False
    then have "c \<in> set regions" using Cons.prems(1) by simp
    from Cons.IH[OF this Cons.prems(2,3)] show ?thesis
      by (auto simp: Let_def split: option.splits)
  qed
qed

lemma requested_regions_named:
  assumes "region = RStr c \<and> c \<noteq> [] \<and> c \<noteq> ''all'' \<or> region = RList cs \<and> c \<in> set cs"
  shows "c \<in> set (requested_regions cls region)"
  using assms unfolding requested_regions_def Let_def by auto

lemma forecast_regions_skips:
  assumes "\<forall>region \<in> set regions. n_train_of (xs_new_tests df region) \<le> 10"
  shows "forecast_regions env df country ov regions st = (st, None)"
  using assms by (induction regions) auto

text \<open>
  The loop of the batch runner.  An assignment to the rows of one region leaves the
  other rows of the column as they were.  The body for one region records the call,
  adds at most that region to \<open>results\<close> and writes at most that region's rows.  So
  after any number of rounds the regions called are an initial part of the regions with
  more than 10 observations, the keys of \<open>results\<close> are among them, and the column has
  at the rows of every other region what the input frame had there.
\<close>

lemma assign_region_length: "length (assign_region region vals zs) = length zs"
  by (induction zs arbitrary: vals) (auto split: list.splits)

lemma assign_region_other:
  "i < length zs \<Longrightarrow> fst (zs ! i) \<noteq> region \<Longrightarrow> assign_region region vals zs ! i = snd (zs ! i)"
proof (induction zs arbitrary: vals i)
  case Nil
  then show ?case by simp
next
  case (Cons z zs)
  obtain r c where z: "z = (r, c)" by (cases z)
  show ?case
  proof (cases i)
    case 0
    then show ?thesis using Cons.prems z by (auto split: list.splits)
  next
    case (Suc j)
    then have "j < length zs" "fst (zs ! j) \<noteq> region" using Cons.prems by auto
    from Cons.IH[OF this] show ?thesis using Suc z by (auto split: list.splits)
  qed
qed

lemma update_key:
  "(k', v') \<in> set (AList.update k v al) \<Longrightarrow> k' = k \<or> k' \<in> fst ` set al"
proof -
  assume "(k', v') \<in> set (AList.update k v al)"
  then have "k' \<in> fst ` set (AList.update k v al)" by force
  then show ?thesis by (simp add: dom_update)
qed

lemma impute_region_effect:
  assumes "10 < n_train_of (xs_new_tests df region)"
      and "impute_region env df country ov region st = (st', e)"
  shows "invoked st' = invoked st @ [region]
         \<and> fst ` set (results st') \<subseteq> insert region (fst ` set (results st))
         \<and> (predicted_new_tests st' = predicted_new_tests st
            \<or> (\<exists>vals. predicted_new_tests st' =
                  Some (assign_region region vals
                          (zip (map (\<lambda>((r, date), v). r) (df_rows df))
                               (case predicted_new_tests st of
                                  None \<Rightarrow> replicate (length (df_rows df)) None
                                | Some col \<Rightarrow> col)))))"
proof -
  have "filter (\<lambda>(date, v). v \<noteq> None) (xs_new_tests df region) \<noteq> []"
    using assms(1) unfolding n_train_of_def by auto
  then show ?thesis
    using assms(2) unfolding impute_region_def Let_def
    by (auto split: list.splits prod.splits sum.splits if_splits dest: update_key)
qed

lemma column_kept:
  assumes N: "col = None \<longrightarrow> df_predicted df = None"
      and P: "\<forall>c. col = Some c \<longrightarrow>
                length c = length (df_rows df)
                \<and> (\<forall>i<length (df_rows df).
                      fst (fst (df_rows df ! i)) \<notin> S \<longrightarrow> c ! i = input_column df i)"
      and c': "c' = assign_region region vals
                     (zip (map (\<lambda>((r, date), v). r) (df_rows df))
                          (case col of
                             None \<Rightarrow> replicate (length (df_rows df)) None
                           | Some c \<Rightarrow> c))"
  shows "length c' = length (df_rows df)
         \<and> (\<forall>i<length (df_rows df).
               fst (fst (df_rows df ! i)) \<notin> insert region S \<longrightarrow> c' ! i = input_column df i)"
proof -
  let ?n = "length (df_rows df)"
  let ?old = "case col of None \<Rightarrow> replicate ?n None | Some c \<Rightarrow> c"
  let ?zs = "zip (map (\<lambda>((r, date), v). r) (df_rows df)) ?old"
  have lo: "length ?old = ?n" using P by (cases col) auto
  have old: "\<forall>i<?n. fst (fst (df_rows df ! i)) \<notin> S \<longrightarrow> ?old ! i = input_column df i"
  proof (cases col)
    case None
    then show ?thesis using N by (simp add: input_column_def)
  next
    case (Some c)
    then show ?thesis using P by simp
  qed
  have lz: "length ?zs = ?n" using lo by simp
  have len: "length c' = ?n" unfolding c' assign_region_length lz ..
  have "c' ! i = input_column df i"
    if i: "i < ?n" and n: "fst (fst (df_rows df ! i)) \<notin> insert region S" for i
  proof -
    have f: "fst (?zs ! i) = fst (fst (df_rows df ! i))"
      using i lo by (simp add: case_prod_unfold)
    have s: "snd (?zs ! i) = ?old ! i" using i lo by simp
    have "c' ! i = snd (?zs ! i)"
      unfolding c' using i lz f n by (intro assign_region_other) auto
    then show ?thesis using s old i n by simp
  qed
  then show ?thesis using len by blast
qed

lemma forecast_regions_invariant:
  assumes "forecast_regions env df country ov regions st = (st', e)"
      and "fst ` set (results st) \<subseteq> set (invoked st)"
      and "predicted_new_tests st = None \<longrightarrow> df_predicted df = None"
      and "\<forall>c. predicted_new_tests st = Some c \<longrightarrow>
             length c = length (df_rows df)
             \<and> (\<forall>i<length (df_rows df).
                   fst (fst (df_rows df ! i)) \<notin> set (invoked st) \<longrightarrow> c ! i = input_column df i)"
  shows "\<exists>new rest.
           invoked st' = invoked st @ new
           \<and> filter (\<lambda>r. 10 < n_train_of (xs_new_tests df r)) regions = new @ rest
           \<and> (e = None \<longrightarrow> rest = [])
           \<and> fst ` set (results st') \<subseteq> set (invoked st')
           \<and> (predicted_new_tests st' = None \<longrightarrow> df_predicted df = None)
           \<and> (\<forall>c. predicted_new_tests st' = Some c \<longrightarrow>
                 length c = length (df_rows df)
                 \<and> (\<forall>i<length (df_rows df).
                       fst (fst (df_rows df ! i)) \<notin> set (invoked st')
                         \<longrightarrow> c ! i = input_column df i))"
  using assms
proof (induction regions arbitrary: st)
  case Nil
  then have "st' = st" "e = None" by simp_all
  then show ?case using Nil.prems(2,3,4)
    by (intro exI[of _ "[]"]) simp
next
  case (Cons region regions)
  show ?case
  proof (cases "10 < n_train_of (xs_new_tests df region)")
    case False
    then have "forecast_regions env df country ov regions st = (st', e)"
      using Cons.prems(1) by simp
    from Cons.IH[OF this Cons.prems(2,3,4)] show ?thesis using False by simp
  next
    case True
    obtain st1 e1 where imp: "impute_region env df country ov region st = (st1, e1)"
      by (cases "impute_region env df country ov region st")
    note eff = impute_region_effect[OF True imp]
    have inv1: "invoked st1 = invoked st @ [region]" using eff by blast
    have "fst ` set (results st1) \<subseteq> insert region (fst ` set (results st))"
      using eff by blast
    then have res1: "fst ` set (results st1) \<subseteq> set (invoked st1)"
      using Cons.prems(2) unfolding inv1 by simp blast
    have alt: "predicted_new_tests st1 = predicted_new_tests st
            \<or> (\<exists>vals. predicted_new_tests st1 =
                  Some (assign_region region vals
                          (zip (map (\<lambda>((r, date), v). r) (df_rows df))
                               (case predicted_new_tests st of
                                  None \<Rightarrow> replicate (length (df_rows df)) None
                                | Some col \<Rightarrow> col))))"
      using eff by blast
    have none1: "predicted_new_tests st1 = None \<longrightarrow> df_predicted df = None"
    proof
      assume n: "predicted_new_tests st1 = None"
      then have "predicted_new_tests st = None" using alt by auto
      then show "df_predicted df = None" using Cons.prems(3) by simp
    qed
    have col1: "\<forall>c. predicted_new_tests st1 = Some c \<longrightarrow>
             length c = length (df_rows df)
             \<and> (\<forall>i<length (df_rows df).
                   fst (fst (df_rows df ! i)) \<notin> set (invoked st1) \<longrightarrow> c ! i = input_column df i)"
    proof (intro allI impI)
      fix c assume c: "predicted_new_tests st1 = Some c"
      from alt show "length c = length (df_rows df)
             \<and> (\<forall>i<length (df_rows df).
                   fst (fst (df_rows df ! i)) \<notin> set (invoked st1) \<longrightarrow> c ! i = input_column df i)"
      proof
        assume "predicted_new_tests st1 = predicted_new_tests st"
        then have "predicted_new_tests st = Some c" using c by simp
        then have "length c = length (df_rows df)
             \<and> (\<forall>i<length (df_rows df).
                   fst (fst (df_rows df ! i)) \<notin> set (invoked st) \<longrightarrow> c ! i = input_column df i)"
          using Cons.prems(4) by blast
        then show ?thesis unfolding inv1 by simp
      next
        assume "\<exists>vals. predicted_new_tests st1 =
                  Some (assign_region region vals
                          (zip (map (\<lambda>((r, date), v). r) (df_rows df))
                               (case predicted_new_tests st of
                                  None \<Rightarrow> replicate (length (df_rows df)) None
                                | Some col \<Rightarrow> col)))"
        then obtain vals where
          "c = assign_region region vals
                 (zip (map (\<lambda>((r, date), v). r) (df_rows df))
                      (case predicted_new_tests st of
                         None \<Rightarrow> replicate (length (df_rows df)) None
                       | Some col \<Rightarrow> col))"
          using c by auto
        from column_kept[OF Cons.prems(3) Cons.prems(4) this] show ?thesis
          unfolding inv1 by simp
      qed
    qed
    show ?thesis
    proof (cases e1)
      case (Some err)
      then have "st' = st1" "e = Some err" using Cons.prems(1) True imp by auto
      then show ?thesis using inv1 res1 none1 col1 True
        by (intro exI[of _ "[region]"]
                  exI[of _ "filter (\<lambda>r. 10 < n_train_of (xs_new_tests df r)) regions"])
           simp
    next
      case None
      then have "forecast_regions env df country ov regions st1 = (st', e)"
        using Cons.prems(1) True imp by simp
      from Cons.IH[OF this res1 none1 col1] obtain new rest where
        H: "invoked st' = invoked st1 @ new
           \<and> filter (\<lambda>r. 10 < n_train_of (xs_new_tests df r)) regions = new @ rest
           \<and> (e = None \<longrightarrow> rest = [])
           \<and> fst ` set (results st') \<subseteq> set (invoked st')
           \<and> (predicted_new_tests st' = None \<longrightarrow> df_predicted df = None)
           \<and> (\<forall>c. predicted_new_tests st' = Some c \<longrightarrow>
                 length c = length (df_rows df)
                 \<and> (\<forall>i<length (df_rows df).
                       fst (fst (df_rows df ! i)) \<notin> set (invoked st')
                         \<longrightarrow> c ! i = input_column df i))"
        by (elim exE) (rule that)
      have a: "invoked st' = invoked st @ (region # new)" using H inv1 by simp
      have b: "filter (\<lambda>r. 10 < n_train_of (xs_new_tests df r)) (region # regions)
                 = (region # new) @ rest"
        using H True by simp
      have c: "(e = None \<longrightarrow> rest = [])
           \<and> fst ` set (results st') \<subseteq> set (invoked st')
           \<and> (predicted_new_tests st' = None \<longrightarrow> df_predicted df = None)
           \<and> (\<forall>c. predicted_new_tests st' = Some c \<longrightarrow>
                 length c = length (df_rows df)
                 \<and> (\<forall>i<length (df_rows df).
                       fst (fst (df_rows df ! i)) \<notin> set (invoked st')
                         \<longrightarrow> c ! i = input_column df i))"
        using H by (elim conjE) (intro conjI)
      show ?thesis
        using a b c by (intro exI[of _ "region # new"] exI[of _ rest] conjI) (elim conjE; assumption)+
    qed
  qed
qed

text \<open>The column the loop starts from is the column of the input frame.\<close>

lemma initial_column:
  "\<forall>c. map_option (\<lambda>col. map col [0..<length (df_rows df)]) (df_predicted df) = Some c \<longrightarrow>
        length c = length (df_rows df)
        \<and> (\<forall>i<length (df_rows df). c ! i = input_column df i)"
  by (cases "df_predicted df") (auto simp: input_column_def)

text \<open>The clipped estimates: same dates, every value at most the largest estimate.\<close>

lemma clip_le: "clip a 0 M \<le> M"
  by (simp add: clip_def)

lemma clip_ge: "0 \<le> M \<Longrightarrow> 0 \<le> clip a 0 M"
  by (simp add: clip_def)

lemma clipped_index: "map fst (clipped fc) = map fst fc"
  unfolding clipped_def yhat_max_def
  by (cases fc) (auto simp: case_prod_unfold)

lemma clipped_mem:
  assumes "(d, y) \<in> set (clipped fc)"
  shows "\<exists>M yhat. yhat_max fc = Some M \<and> (d, yhat) \<in> set fc \<and> y = clip yhat 0 M"
proof (cases "yhat_max fc")
  case None
  then show ?thesis using assms unfolding clipped_def by simp
next
  case (Some M)
  then have "(d, y) \<in> (\<lambda>(ds, yhat). (ds, clip yhat 0 M)) ` set fc"
    using assms unfolding clipped_def by simp
  then obtain yhat where "(d, yhat) \<in> set fc" "y = clip yhat 0 M" by auto
  then show ?thesis using Some by blast
qed

lemma fold_max_ge: "(a::real) \<le> fold max ys a \<and> (\<forall>y\<in>set ys. y \<le> fold max ys a)"
proof (induction ys arbitrary: a)
  case Nil
  show ?case by simp
next
  case (Cons y ys)
  from Cons.IH[of "max y a"] show ?case by auto
qed

lemma yhat_max_is_upper_bound:
  assumes "yhat_max fc = Some M" "(d, y) \<in> set fc"
  shows "y \<le> M"
proof -
  obtain y0 ys where ys: "map snd fc = y0 # ys" and M: "M = fold max ys y0"
    using assms(1) unfolding yhat_max_def by (auto split: list.splits)
  have "y \<in> set (map snd fc)" using assms(2) by force
  then have "y = y0 \<or> y \<in> set ys" unfolding ys by simp
  then show ?thesis using fold_max_ge[of y0 ys] unfolding M by auto
qed

text \<open>The run of the concrete series with \<open>keep_data=True\<close>.\<close>

lemma ex_series_run:
  "predict_testcounts ex_env ex_series ''US'' RNone False True None [] =
     (\<lparr>index_name = Some ''date'', s_name = Some ''total'',
       s_rows = [((2020, 4, 1), Some 100), ((2020, 4, 2), None), ((2020, 4, 3), Some 3)]\<rparr>,
      [GetHolidays ''US'' RNone {2020}, Fit, Predict],
      Inr (\<lparr>index_name = Some ''date'', s_name = Some ''testcount'',
            s_rows = [((2020, 4, 1), Some 100), ((2020, 4, 2), Some 5), ((2020, 4, 3), Some 3)]\<rparr>,
           5, [((2020, 4, 1), 5), ((2020, 4, 2), 5), ((2020, 4, 3), 5)],
           [((2020, 1, 1), ''New Year'')]))"
  by code_simp


lemma ex_series_normalise:
  "normalise ex_env ex_series None =
     (\<lparr>index_name = Some ''date'', s_name = Some ''total'',
       s_rows = [((2020, 4, 1), Some 100), ((2020, 4, 2), None), ((2020, 4, 3), Some 3)]\<rparr>,
      Inr (2020, 4, 1))"
  by code_simp

text \<open>The same run with the model whose forecast stops after the first date.\<close>

lemma ex_series_short_run:
  "predict_testcounts ex_env_short ex_series ''US'' RNone False True None [] =
     (\<lparr>index_name = Some ''date'', s_name = Some ''total'',
       s_rows = [((2020, 4, 1), Some 100), ((2020, 4, 2), None), ((2020, 4, 3), Some 3)]\<rparr>,
      [GetHolidays ''US'' RNone {2020}, Fit, Predict],
      Inr (\<lparr>index_name = Some ''date'', s_name = Some ''testcount'',
            s_rows = [((2020, 4, 1), Some 100), ((2020, 4, 2), None), ((2020, 4, 3), Some 3)]\<rparr>,
           5, [((2020, 4, 1), 5)],
           [((2020, 1, 1), ''New Year'')]))"
  by code_simp

lemma ex_series_short_normalise:
  "normalise ex_env_short ex_series None =
     (\<lparr>index_name = Some ''date'', s_name = Some ''total'',
       s_rows = [((2020, 4, 1), Some 100), ((2020, 4, 2), None), ((2020, 4, 3), Some 3)]\<rparr>,
      Inr (2020, 4, 1))"
  by code_simp

text \<open>The run of the series stored out of order, with \<open>keep_data=True\<close>.\<close>

lemma ex_unsorted_run:
  "predict_testcounts ex_env ex_unsorted ''US'' RNone False True None [] =
     (\<lparr>index_name = Some ''date'', s_name = Some ''total'',
       s_rows = [((2020, 4, 1), Some 100), ((2020, 4, 2), None), ((2020, 4, 3), Some 3)]\<rparr>,
      [GetHolidays ''US'' RNone {2020}, Fit, Predict],
      Inr (\<lparr>index_name = Some ''date'', s_name = Some ''testcount'',
            s_rows = [((2020, 4, 1), Some 100), ((2020, 4, 2), Some 5), ((2020, 4, 3), Some 3)]\<rparr>,
           5, [((2020, 4, 1), 5), ((2020, 4, 2), 5), ((2020, 4, 3), 5)],
           [((2020, 1, 1), ''New Year'')]))"
  by code_simp

text \<open>Concrete calls of \<open>get_holidays\<close>, and the frame with one small region.\<close>

lemma ex_get_holidays_runs:
  "get_holidays ex_env ''AQ'' RNone {2020} = Inl (UnknownCountry ''ATA'')"
  "get_holidays ex_env ''US'' (RList [''CA'', ''TX'']) {2020} = Inl (UnknownRegion ''TX'' ''USA'')"
  by code_simp+

lemma ex_df_small_levels:
  "levels0 ex_df_small = [''WY'']" "n_train_of (xs_new_tests ex_df_small ''WY'') = 5"
  "df_predicted ex_df_small = None"
  by code_simp+

text \<open>The run of the frame with one large and one small region.\<close>

lemma ex_df_run:
  "predict_testcounts_all_regions ex_env ex_df ''US'' no_overrides =
     ([''NY''],
      Inr (map (\<lambda>i. ((''NY'', (2020, 4, i)), Some 7)) [1..11]
             @ [((''NY'', (2020, 4, 12)), Some 5)]
             @ map (\<lambda>i. ((''WY'', (2020, 4, i)), None)) [1..6],
           [(''NY'',
             \<lparr>index_name = Some ''date'', s_name = Some ''testcount'',
              s_rows = map (\<lambda>i. ((2020, 4, i), Some 7)) [1..11] @ [((2020, 4, 12), Some 5)]\<rparr>,
             5, map (\<lambda>i. ((2020, 4, i), 5)) [1..12], [((2020, 1, 1), ''New Year'')])]))"
  by code_simp

lemma ex_df_counts:
  "n_train_of (xs_new_tests ex_df ''NY'') = 11" "n_train_of (xs_new_tests ex_df ''WY'') = 5"
  "levels0 ex_df = [''NY'', ''WY'']"
  by code_simp+

lemma ex_df_rows:
  "length (df_rows ex_df) = 18" "df_rows ex_df ! 12 = ((''WY'', (2020, 4, 1)), Some 7)"
  "input_column ex_df 12 = None"
  by code_simp+

text \<open>
  The comparison of the indexes at line 275 ends the loop as well: the imputer returns
  the rows of the first region in ascending order, the frame has them latest first,
  and the second region is never tried.
\<close>

lemma index_assertion_ends_batch:
  "predict_testcounts_all_regions ex_env ex_df_unordered ''US'' no_overrides
     = ([''CA''], Inl AssertionError)"
  "levels0 ex_df_unordered = [''CA'', ''NY'']"
  "n_train_of (xs_new_tests ex_df_unordered ''NY'') = 11"
  by code_simp+

section \<open>The claims\<close>

text \<open>
  C1.  When a call of \<open>predict_testcounts\<close> with \<open>keep_data=True\<close> returns, every row
  of the input whose value is not NaN is a row of the returned series, with the same
  date and the same value; when the dates of the input are distinct, that value is the
  only one the returned series has at that date.
\<close>

theorem keep_data_preserves_observed:
  assumes "predict_testcounts env tc country region rh True ib kw = (tc', evs, Inr (result, m, fc, hol))"
    and "(d, Some x) \<in> set (s_rows tc)"
  shows "(d, Some x) \<in> set (s_rows result)
         \<and> (distinct (s_index tc) \<longrightarrow> map_of (s_rows result) d = Some (Some x))"
proof -
  from predict_testcounts_success[OF assms(1)] obtain fl where
    n: "normalise env tc ib = (tc', Inr fl)" and
    a: "loc_assign (mask_predict_of tc' fl True) (s_rows tc') (clipped fc) = Inr (s_rows result)"
    by blast
  have srt: "s_rows tc' = sort_key fst (sort_key (quicksort_ties env (s_rows tc)) (s_rows tc))"
    by (rule normalise_sorted[OF n])
  let ?g = "\<lambda>(d, v). if fl \<le> d \<and> v = None then (d, map_of (clipped fc) d) else (d, v)"
  have rows: "s_rows result = map ?g (s_rows tc')" by (rule loc_assign_keep[OF a])
  have "(d, Some x) \<in> set (s_rows tc')" using assms(2) srt by simp
  then have "?g (d, Some x) \<in> ?g ` set (s_rows tc')" by (rule imageI)
  then have mem: "(d, Some x) \<in> set (s_rows result)" unfolding rows set_map by simp
  have idx: "map fst (s_rows result) = map fst (s_rows tc')"
    by (rule loc_assign_index[OF a length_mask_predict])
  have "distinct (map fst (s_rows result))" if "distinct (s_index tc)"
    using that unfolding idx s_index_def srt by (simp add: sorted_rows_index)
  then show ?thesis using mem by (auto)
qed

theorem keep_data_preserves_observed_witness:
  "((2020, 4, 1), Some 100) \<in> set (s_rows ex_series)
   \<and> ((2020, 4, 1), Some 100)
       \<in> set [((2020, 4, 1), Some 100), ((2020, 4, 2), Some 5), ((2020, 4, 3), Some (3::real))]
   \<and> distinct (s_index ex_series)"
  using keep_data_preserves_observed [OF ex_series_run, of "(2020, 4, 1)" 100]
  by (simp add: ex_series_def s_index_def)

text \<open>
  C2, as stated: every value of the returned series lies between 0 and the largest
  point estimate.  It fails where an observed value is kept: the concrete series keeps
  100 while the largest estimate is 5.
\<close>

theorem all_values_clipped_counterexample:
  "predict_testcounts ex_env ex_series ''US'' RNone False True None [] =
     (\<lparr>index_name = Some ''date'', s_name = Some ''total'',
       s_rows = [((2020, 4, 1), Some 100), ((2020, 4, 2), None), ((2020, 4, 3), Some 3)]\<rparr>,
      [GetHolidays ''US'' RNone {2020}, Fit, Predict],
      Inr (\<lparr>index_name = Some ''date'', s_name = Some ''testcount'',
            s_rows = [((2020, 4, 1), Some 100), ((2020, 4, 2), Some 5), ((2020, 4, 3), Some 3)]\<rparr>,
           5, [((2020, 4, 1), 5), ((2020, 4, 2), 5), ((2020, 4, 3), 5)],
           [((2020, 1, 1), ''New Year'')]))
   \<and> yhat_max [((2020, 4, 1), 5), ((2020, 4, 2), 5), ((2020, 4, 3), 5)] = Some 5
   \<and> \<not> (100 \<le> (5::real))"
  by code_simp

text \<open>
  C2, amended.  When a call returns, the value at a row the predict mask selects is NaN
  when the forecast has no row for that date, and otherwise it is a number that is at
  most the largest point estimate and, when that estimate is not negative, at least 0.
  A row the mask does not select is the input row.
\<close>

theorem predicted_values_clipped:
  assumes run: "predict_testcounts env tc country region rh kd ib kw
                  = (tc', evs, Inr (result, m, fc, hol))"
      and fl: "normalise env tc ib = (tc', Inr floor_date)"
      and i: "i < length (s_rows tc')"
  shows "(mask_predict_of tc' floor_date kd ! i \<longrightarrow>
            (fst (s_rows tc' ! i) \<notin> fst ` set fc \<longrightarrow> snd (s_rows result ! i) = None)
            \<and> (fst (s_rows tc' ! i) \<in> fst ` set fc \<longrightarrow>
                 (\<exists>y M. snd (s_rows result ! i) = Some y \<and> yhat_max fc = Some M
                        \<and> y \<le> M \<and> (0 \<le> M \<longrightarrow> 0 \<le> y))))
         \<and> (\<not> mask_predict_of tc' floor_date kd ! i \<longrightarrow> s_rows result ! i = s_rows tc' ! i)"
proof -
  from predict_testcounts_success[OF run] fl have
    a: "loc_assign (mask_predict_of tc' floor_date kd) (s_rows tc') (clipped fc)
          = Inr (s_rows result)"
    by auto
  let ?msk = "mask_predict_of tc' floor_date kd"
  let ?h = "\<lambda>(b, (d, v)). if b then (d, map_of (clipped fc) d) else (d, v)"
  have rows: "s_rows result = map ?h (zip ?msk (s_rows tc'))"
    using a unfolding loc_assign_def by (auto split: if_splits)
  have len: "length ?msk = length (s_rows tc')" by (rule length_mask_predict)
  obtain d v where dv: "s_rows tc' ! i = (d, v)" by (cases "s_rows tc' ! i")
  have at: "s_rows result ! i = (if ?msk ! i then (d, map_of (clipped fc) d) else (d, v))"
    unfolding rows using i len dv by simp
  have dates: "fst ` set (clipped fc) = fst ` set fc"
    using clipped_index[of fc] by (metis set_map)
  show ?thesis
  proof (cases "?msk ! i")
    case False
    then show ?thesis using at dv by simp
  next
    case True
    then have r: "snd (s_rows result ! i) = map_of (clipped fc) d" using at by simp
    have absent: "snd (s_rows result ! i) = None" if "d \<notin> fst ` set fc"
      using that r dates by (simp add: map_of_eq_None_iff)
    have present: "\<exists>y M. snd (s_rows result ! i) = Some y \<and> yhat_max fc = Some M
                        \<and> y \<le> M \<and> (0 \<le> M \<longrightarrow> 0 \<le> y)" if "d \<in> fst ` set fc"
    proof -
      have "map_of (clipped fc) d \<noteq> None"
        using that dates by (simp add: map_of_eq_None_iff)
      then obtain y where y: "map_of (clipped fc) d = Some y" by auto
      then have "(d, y) \<in> set (clipped fc)" by (rule map_of_SomeD)
      from clipped_mem[OF this] obtain M yhat where
        "yhat_max fc = Some M" "y = clip yhat 0 M" by blast
      then have "yhat_max fc = Some M \<and> y \<le> M \<and> (0 \<le> M \<longrightarrow> 0 \<le> y)"
        using clip_le clip_ge by simp
      then show ?thesis using r y by auto
    qed
    show ?thesis using True absent present dv by simp
  qed
qed

theorem predicted_values_clipped_witness:
  "mask_predict_of
     \<lparr>index_name = Some ''date'', s_name = Some ''total'',
       s_rows = [((2020, 4, 1), Some 100), ((2020, 4, 2), None), ((2020, 4, 3), Some 3)]\<rparr>
     (2020, 4, 1) True ! 1
   \<and> ((2020, 4, 2) :: date)
         \<in> fst ` set [((2020, 4, 1), 5::real), ((2020, 4, 2), 5), ((2020, 4, 3), 5)]
   \<and> yhat_max [((2020, 4, 1), 5), ((2020, 4, 2), 5), ((2020, 4, 3), 5)] = Some 5
   \<and> (0::real) \<le> 5
   \<and> ((2020, 4, 2) :: date) \<notin> fst ` set [((2020, 4, 1), 5::real)]"
  using predicted_values_clipped [OF ex_series_run ex_series_normalise, of 1]
        predicted_values_clipped [OF ex_series_short_run ex_series_short_normalise, of 1]
  by (simp add: mask_predict_of_def yhat_max_def)

text \<open>
  C3, as stated: the index of the returned series is the index of the input as the
  caller passed it.  It fails for an input stored out of order.
\<close>

theorem result_index_as_passed_counterexample:
  "snd (snd (predict_testcounts ex_env ex_unsorted ''US'' RNone False True None [])) =
     Inr (\<lparr>index_name = Some ''date'', s_name = Some ''testcount'',
            s_rows = [((2020, 4, 1), Some 100), ((2020, 4, 2), Some 5), ((2020, 4, 3), Some 3)]\<rparr>,
           5, [((2020, 4, 1), 5), ((2020, 4, 2), 5), ((2020, 4, 3), 5)],
           [((2020, 1, 1), ''New Year'')])
   \<and> s_index ex_unsorted = [(2020, 4, 2), (2020, 4, 1), (2020, 4, 3)]
   \<and> s_index \<lparr>index_name = Some ''date'', s_name = Some ''testcount'',
        s_rows = [((2020, 4, 1), Some 100), ((2020, 4, 2), Some 5), ((2020, 4, 3), Some 3)]\<rparr>
       \<noteq> s_index ex_unsorted"
  by code_simp

text \<open>
  C3, amended.  When a call returns, the index of the returned series is the index of
  the input in ascending order, which is the index the caller's series has after the
  call; it is the index as passed when that was ascending already.
\<close>

theorem result_index_is_sorted_index:
  assumes "predict_testcounts env tc country region rh kd ib kw
             = (tc', evs, Inr (result, m, fc, hol))"
  shows "s_index result = sort (s_index tc)
         \<and> s_index result = s_index tc'
         \<and> (sorted (s_index tc) \<longrightarrow> s_index result = s_index tc)"
proof -
  from predict_testcounts_success[OF assms] obtain fl where
    n: "normalise env tc ib = (tc', Inr fl)" and
    a: "loc_assign (mask_predict_of tc' fl kd) (s_rows tc') (clipped fc) = Inr (s_rows result)"
    by blast
  have idx: "s_index result = s_index tc'"
    unfolding s_index_def by (rule loc_assign_index[OF a length_mask_predict])
  have srt: "s_index tc' = sort (s_index tc)"
    unfolding s_index_def normalise_sorted[OF n] by (rule sorted_rows_index)
  show ?thesis using idx srt by (simp add: sort_key_id_if_sorted)
qed

theorem result_index_is_sorted_index_witness:
  "s_index ex_unsorted = [(2020, 4, 2), (2020, 4, 1), (2020, 4, 3)]
   \<and> sort (s_index ex_unsorted) = [(2020, 4, 1), (2020, 4, 2), (2020, 4, 3)]
   \<and> s_index \<lparr>index_name = Some ''date'', s_name = Some ''testcount'',
        s_rows = [((2020, 4, 1), Some 100), ((2020, 4, 2), Some 5), ((2020, 4, 3), Some 3)]\<rparr>
       = sort (s_index ex_unsorted)"
  using result_index_is_sorted_index [OF ex_unsorted_run]
  by (simp add: ex_unsorted_def s_index_def)

text \<open>
  C4.  The years for which holidays are fetched should cover every calendar year from
  the first to the last date.  The code passes the years of the two end points only:
  for the series from 2019 to 2021 both calls of \<open>get_holidays\<close> get \<open>{2019, 2021}\<close>,
  and 2020 is missing.
\<close>

theorem years_skip_the_middle_year:
  "fst (snd (predict_testcounts ex_env ex_three_years ''US'' (RStr ''all'') True True None []))
     = [GetHolidays ''US'' (RStr ''all'') {2019, 2021}, GetHolidays ''US'' RNone {2019, 2021},
        Fit, Predict]
   \<and> map year (s_index ex_three_years) = [2019, 2020, 2021]
   \<and> (2020::int) \<notin> {2019, 2021}"
  by code_simp

text \<open>
  C5.  With \<open>ignore_before\<close> unset the floor should be the earliest date of the series.
  The code reads \<open>index[0]\<close> before it sorts: for the series stored as April 2, April
  1, April 3 the floor is April 2, and with \<open>keep_data=False\<close> the value of April 1 is
  not predicted.
\<close>

theorem default_floor_read_before_sort:
  "normalise ex_env ex_unsorted None =
     (\<lparr>index_name = Some ''date'', s_name = Some ''total'',
       s_rows = [((2020, 4, 1), Some 100), ((2020, 4, 2), None), ((2020, 4, 3), Some 3)]\<rparr>,
      Inr (2020, 4, 2))
   \<and> snd (snd (predict_testcounts ex_env ex_unsorted ''US'' RNone False False None [])) =
     Inr (\<lparr>index_name = Some ''date'', s_name = Some ''testcount'',
            s_rows = [((2020, 4, 1), Some 100), ((2020, 4, 2), Some 5), ((2020, 4, 3), Some 5)]\<rparr>,
           5, [((2020, 4, 1), 5), ((2020, 4, 2), 5), ((2020, 4, 3), 5)],
           [((2020, 1, 1), ''New Year'')])
   \<and> (2020, 4, 1) < ((2020, 4, 2) :: date)"
  by code_simp

text \<open>
  C6, as stated: with \<open>regional_holidays=True\<close> and at most one region the call fails
  with the configuration error.  On an empty series it fails earlier, with the
  \<open>IndexError\<close> of \<open>index[0]\<close>.
\<close>

theorem empty_series_index_error_counterexample:
  "predict_testcounts ex_env ex_empty ''US'' RNone True True None [] =
     (\<lparr>index_name = Some ''date'', s_name = Some ''total'', s_rows = []\<rparr>, [], Inl IndexError)
   \<and> IndexError \<noteq> ConfigurationError"
  by code_simp

text \<open>
  C6, amended.  On a series with at least one row, a call with
  \<open>regional_holidays=True\<close> whose selector is \<open>None\<close>, an empty list, one string
  other than \<open>all\<close>, or a one-element list fails with the configuration error, and no
  call of \<open>get_holidays\<close>, \<open>fit\<close> or \<open>predict\<close> has been made.
\<close>

theorem regional_holidays_need_regions:
  assumes "s_rows tc \<noteq> []"
      and "region = RNone \<or> region = RList [] \<or> (\<exists>c. c \<noteq> ''all'' \<and> region = RStr c)
           \<or> (\<exists>c. region = RList [c])"
  shows "snd (predict_testcounts env tc country region True kd ib kw)
           = ([], Inl ConfigurationError)"
proof -
  have "region \<noteq> RStr ''all''" "len_regions region \<le> 1" using assms(2) by auto
  then show ?thesis using assms(1) by (rule configuration_error_run[rotated])
qed

theorem regional_holidays_need_regions_witness:
  "s_rows ex_unsorted \<noteq> []
   \<and> snd (predict_testcounts ex_env ex_unsorted ''US'' (RStr ''CA'') True False None [])
       = ([], Inl ConfigurationError)"
  using regional_holidays_need_regions [of ex_unsorted "RStr ''CA''" ex_env "''US''" False None "[]"]
  by (simp add: ex_unsorted_def)

text \<open>
  C9.  Every call leaves the caller's series with the index name \<open>date\<close>, the name
  \<open>total\<close> and its own rows rearranged so that the dates ascend (with distinct dates
  that is the stable sort; among rows with equal dates the order is the library's); so
  does the call that fails with the configuration error.
\<close>

theorem input_series_mutated_in_place:
  "index_name (fst (predict_testcounts env tc country region rh kd ib kw)) = Some ''date''
   \<and> s_name (fst (predict_testcounts env tc country region rh kd ib kw)) = Some ''total''
   \<and> s_index (fst (predict_testcounts env tc country region rh kd ib kw)) = sort (s_index tc)
   \<and> mset (s_rows (fst (predict_testcounts env tc country region rh kd ib kw)))
       = mset (s_rows tc)
   \<and> (distinct (s_index tc) \<longrightarrow>
        s_rows (fst (predict_testcounts env tc country region rh kd ib kw))
          = sort_key fst (s_rows tc))
   \<and> (s_rows tc \<noteq> [] \<and> region \<noteq> RStr ''all'' \<and> len_regions region \<le> 1 \<and> rh \<longrightarrow>
        snd (snd (predict_testcounts env tc country region rh kd ib kw))
          = Inl ConfigurationError)"
proof -
  let ?s = "fst (predict_testcounts env tc country region rh kd ib kw)"
  have st: "?s = fst (normalise env tc ib)" by (rule predict_testcounts_state)
  note ns = normalise_state[of env tc ib]
  have rows: "s_rows ?s = sort_key fst (sort_key (quicksort_ties env (s_rows tc)) (s_rows tc))"
    unfolding st using ns by simp
  have names: "index_name ?s = Some ''date''" "s_name ?s = Some ''total''"
    unfolding st using ns by simp_all
  have idx: "s_index ?s = sort (s_index tc)"
    unfolding s_index_def rows by (rule sorted_rows_index)
  have ms: "mset (s_rows ?s) = mset (s_rows tc)"
    unfolding rows by (rule sorted_rows_mset)
  have dis: "distinct (s_index tc) \<longrightarrow> s_rows ?s = sort_key fst (s_rows tc)"
    unfolding rows s_index_def by (simp add: sorted_rows_distinct)
  have cfg: "s_rows tc \<noteq> [] \<and> region \<noteq> RStr ''all'' \<and> len_regions region \<le> 1 \<and> rh \<longrightarrow>
        snd (snd (predict_testcounts env tc country region rh kd ib kw))
          = Inl ConfigurationError"
    using configuration_error_run[of tc region env country kd ib kw] by auto
  show ?thesis
    using names idx ms dis cfg by (intro conjI)
qed

theorem input_series_mutated_in_place_witness:
  "distinct (s_index ex_unsorted)
   \<and> s_rows ex_unsorted = [((2020, 4, 2), None), ((2020, 4, 1), Some 100), ((2020, 4, 3), Some 3)]
   \<and> index_name (fst (predict_testcounts ex_env ex_unsorted ''US'' (RStr ''CA'') True True None []))
       = Some ''date''
   \<and> s_name (fst (predict_testcounts ex_env ex_unsorted ''US'' (RStr ''CA'') True True None []))
       = Some ''total''
   \<and> s_rows (fst (predict_testcounts ex_env ex_unsorted ''US'' (RStr ''CA'') True True None []))
       = [((2020, 4, 1), Some 100), ((2020, 4, 2), None), ((2020, 4, 3), Some 3)]
   \<and> snd (snd (predict_testcounts ex_env ex_unsorted ''US'' (RStr ''CA'') True True None []))
       = Inl ConfigurationError"
  using input_series_mutated_in_place
          [of ex_env ex_unsorted "''US''" "RStr ''CA''" True True None "[]"]
  by (simp add: ex_unsorted_def s_index_def)

text \<open>
  C8.  When the canonical code of the country has no class in the \<open>holidays\<close> package,
  \<open>get_holidays\<close> fails with the unknown-country error.  When the country resolves and
  a requested subdivision code (the selector is that code, a string that is neither
  empty nor \<open>all\<close>, or a list containing it) is in neither \<open>PROVINCES\<close> nor \<open>STATES\<close>,
  \<open>get_holidays\<close> fails with the unknown-region error.
\<close>

theorem get_holidays_unknown_country_or_region:
  "(countries_get env country = Some alpha3 \<and> holidays_getattr env alpha3 = None \<longrightarrow>
      get_holidays env country region years = Inl (UnknownCountry alpha3))
   \<and> (countries_get env country = Some alpha3 \<and> holidays_getattr env alpha3 = Some cls
        \<and> (region = RStr c \<and> c \<noteq> [] \<and> c \<noteq> ''all'' \<or> region = RList cs \<and> c \<in> set cs)
        \<and> c \<notin> set (PROVINCES cls) \<and> (\<forall>sts. STATES cls = Some sts \<longrightarrow> c \<notin> set sts) \<longrightarrow>
      (\<exists>r. get_holidays env country region years = Inl (UnknownRegion r alpha3)))"
proof (intro conjI impI)
  assume "countries_get env country = Some alpha3 \<and> holidays_getattr env alpha3 = None"
  then show "get_holidays env country region years = Inl (UnknownCountry alpha3)"
    unfolding get_holidays_def by simp
next
  assume a: "countries_get env country = Some alpha3 \<and> holidays_getattr env alpha3 = Some cls
        \<and> (region = RStr c \<and> c \<noteq> [] \<and> c \<noteq> ''all'' \<or> region = RList cs \<and> c \<in> set cs)
        \<and> c \<notin> set (PROVINCES cls) \<and> (\<forall>sts. STATES cls = Some sts \<longrightarrow> c \<notin> set sts)"
  then have "region = RStr c \<and> c \<noteq> [] \<and> c \<noteq> ''all'' \<or> region = RList cs \<and> c \<in> set cs"
    by blast
  then have "c \<in> set (requested_regions cls region)" by (rule requested_regions_named)
  from merge_regions_unknown[OF this] a
  have "\<exists>r. merge_regions cls alpha3 years (requested_regions cls region)
              (construct cls years National) = Inl (UnknownRegion r alpha3)"
    by blast
  then show "\<exists>r. get_holidays env country region years = Inl (UnknownRegion r alpha3)"
    unfolding get_holidays_def using a by simp
qed

theorem get_holidays_unknown_country_or_region_witness:
  "countries_get ex_env ''AQ'' = Some ''ATA'' \<and> holidays_getattr ex_env ''ATA'' = None
   \<and> get_holidays ex_env ''AQ'' RNone {2020} = Inl (UnknownCountry ''ATA'')
   \<and> countries_get ex_env ''US'' = Some ''USA'' \<and> holidays_getattr ex_env ''USA'' = Some USA_cls
   \<and> ''TX'' \<notin> set (PROVINCES USA_cls) \<and> STATES USA_cls = Some [''CA'', ''NY'']
   \<and> (\<exists>r. get_holidays ex_env ''US'' (RList [''CA'', ''TX'']) {2020}
            = Inl (UnknownRegion r ''USA''))"
  using get_holidays_unknown_country_or_region
          [of ex_env "''AQ''" "''ATA''" RNone "{2020}" USA_cls "[]" "[]"]
        get_holidays_unknown_country_or_region
          [of ex_env "''US''" "''USA''" "RList [''CA'', ''TX'']" "{2020}" USA_cls "''TX''"
              "[''CA'', ''TX'']"]
  by (simp add: ex_env_def USA_cls_def)

text \<open>
  C10, as stated: when no region has more than 10 observations the function raises the
  \<open>KeyError\<close> of the column \<open>predicted_new_tests\<close>.  The copy of line 250 keeps every
  column of the input: a frame that comes with that column returns it, with an empty
  result mapping.
\<close>

theorem existing_column_returned_counterexample:
  "levels0 ex_df_with_column = [''WY'']
   \<and> n_train_of (xs_new_tests ex_df_with_column ''WY'') = 5
   \<and> predict_testcounts_all_regions ex_env ex_df_with_column ''US'' no_overrides
       = ([],
          Inr ([((''WY'', (2020, 4, 1)), Some 1), ((''WY'', (2020, 4, 2)), Some 1),
                ((''WY'', (2020, 4, 3)), Some 1), ((''WY'', (2020, 4, 4)), Some 1),
                ((''WY'', (2020, 4, 5)), Some 1), ((''WY'', (2020, 4, 6)), Some 1)],
               []))"
  by code_simp

text \<open>
  C10, amended.  When the input frame has no column \<open>predicted_new_tests\<close> and no
  region of it has more than 10 observations that are not NaN,
  \<open>predict_testcounts_all_regions\<close> calls the imputer for no region and fails with
  the \<open>KeyError\<close> of the column \<open>predicted_new_tests\<close>.
\<close>

theorem no_region_qualifies_key_error:
  assumes "\<forall>region \<in> set (levels0 df). n_train_of (xs_new_tests df region) \<le> 10"
      and "df_predicted df = None"
  shows "predict_testcounts_all_regions env df country ov
           = ([], Inl (ColumnKeyError ''predicted_new_tests''))"
  unfolding predict_testcounts_all_regions_def forecast_regions_skips[OF assms(1)]
  using assms(2) by simp

theorem no_region_qualifies_key_error_witness:
  "levels0 ex_df_small = [''WY''] \<and> n_train_of (xs_new_tests ex_df_small ''WY'') = 5
   \<and> df_predicted ex_df_small = None
   \<and> predict_testcounts_all_regions ex_env ex_df_small ''US'' no_overrides
       = ([], Inl (ColumnKeyError ''predicted_new_tests''))"
  using no_region_qualifies_key_error [of ex_df_small ex_env "''US''" no_overrides]
  by (simp add: ex_df_small_levels)

text \<open>
  C7, as stated: the imputer is called for exactly the regions with more than 10
  observations.  An exception of the imputer ends the loop: with a country code the
  resolver does not know, the call for the first of two such regions fails and the
  second is never tried.
\<close>

theorem imputer_failure_ends_batch_counterexample:
  "predict_testcounts_all_regions ex_env ex_df_two ''XX'' no_overrides
     = ([''CA''], Inl (LookupKeyError ''XX''))
   \<and> levels0 ex_df_two = [''CA'', ''NY'']
   \<and> n_train_of (xs_new_tests ex_df_two ''CA'') = 11
   \<and> n_train_of (xs_new_tests ex_df_two ''NY'') = 11
   \<and> [''CA''] \<noteq> [''CA'', ''NY'']"
  by code_simp

text \<open>
  C7, amended.  The regions the imputer is called for are, in the order of the index,
  an initial part of the regions with more than 10 observations that are not NaN, and
  all of them when the function returns (an exception of the imputer and a failed
  comparison of the indexes at line 275 both end the loop).  No region with at most 10
  such observations is among them.  When the function returns, the result mapping has
  no entry for such a region, and the combined series has one entry for each row of
  the frame, which at each row of such a region is the value the input frame had in
  its column \<open>predicted_new_tests\<close>, NaN when the frame came without that column.
\<close>

theorem imputation_threshold:
  assumes "predict_testcounts_all_regions env df country ov = (called, res)"
  shows "(\<exists>rest. filter (\<lambda>r. 10 < n_train_of (xs_new_tests df r)) (levels0 df) = called @ rest
                 \<and> ((\<exists>ok. res = Inr ok) \<longrightarrow> rest = []))
         \<and> (\<forall>region. n_train_of (xs_new_tests df region) \<le> 10 \<longrightarrow> region \<notin> set called)
         \<and> (\<forall>combined res_map region.
               res = Inr (combined, res_map) \<and> n_train_of (xs_new_tests df region) \<le> 10 \<longrightarrow>
                 map_of res_map region = None
                 \<and> length combined = length (df_rows df)
                 \<and> (\<forall>i<length (df_rows df).
                       fst (fst (df_rows df ! i)) = region \<longrightarrow>
                         combined ! i = (fst (df_rows df ! i), input_column df i)))"
proof -
  let ?st0 = "\<lparr>predicted_new_tests =
                  map_option (\<lambda>col. map col [0..<length (df_rows df)]) (df_predicted df),
               results = [], invoked = []\<rparr> :: 'a batch"
  obtain st' e where run: "forecast_regions env df country ov (levels0 df) ?st0 = (st', e)"
    by (cases "forecast_regions env df country ov (levels0 df) ?st0")
  have none0: "predicted_new_tests ?st0 = None \<longrightarrow> df_predicted df = None" by simp
  have col0: "\<forall>c. predicted_new_tests ?st0 = Some c \<longrightarrow>
             length c = length (df_rows df)
             \<and> (\<forall>i<length (df_rows df).
                   fst (fst (df_rows df ! i)) \<notin> set (invoked ?st0) \<longrightarrow> c ! i = input_column df i)"
    using initial_column[of df] by simp
  have "\<exists>new rest.
           invoked st' = invoked ?st0 @ new
           \<and> filter (\<lambda>r. 10 < n_train_of (xs_new_tests df r)) (levels0 df) = new @ rest
           \<and> (e = None \<longrightarrow> rest = [])
           \<and> fst ` set (results st') \<subseteq> set (invoked st')
           \<and> (predicted_new_tests st' = None \<longrightarrow> df_predicted df = None)
           \<and> (\<forall>c. predicted_new_tests st' = Some c \<longrightarrow>
                 length c = length (df_rows df)
                 \<and> (\<forall>i<length (df_rows df).
                       fst (fst (df_rows df ! i)) \<notin> set (invoked st')
                         \<longrightarrow> c ! i = input_column df i))"
    by (rule forecast_regions_invariant[OF run _ none0 col0]) simp
  then obtain new rest where
    H: "invoked st' = invoked ?st0 @ new
           \<and> filter (\<lambda>r. 10 < n_train_of (xs_new_tests df r)) (levels0 df) = new @ rest
           \<and> (e = None \<longrightarrow> rest = [])
           \<and> fst ` set (results st') \<subseteq> set (invoked st')
           \<and> (predicted_new_tests st' = None \<longrightarrow> df_predicted df = None)
           \<and> (\<forall>c. predicted_new_tests st' = Some c \<longrightarrow>
                 length c = length (df_rows df)
                 \<and> (\<forall>i<length (df_rows df).
                       fst (fst (df_rows df ! i)) \<notin> set (invoked st')
                         \<longrightarrow> c ! i = input_column df i))"
    by (elim exE) (rule that)
  have new: "invoked st' = new" using H by simp
  have flt: "filter (\<lambda>r. 10 < n_train_of (xs_new_tests df r)) (levels0 df) = invoked st' @ rest"
    using H unfolding new by (elim conjE)
  have fin: "e = None \<longrightarrow> rest = []"
    using H by (elim conjE)
  have keys: "fst ` set (results st') \<subseteq> set (invoked st')"
    using H by (elim conjE)
  have col: "\<forall>c. predicted_new_tests st' = Some c \<longrightarrow>
                 length c = length (df_rows df)
                 \<and> (\<forall>i<length (df_rows df).
                       fst (fst (df_rows df ! i)) \<notin> set (invoked st')
                         \<longrightarrow> c ! i = input_column df i)"
    using H by (elim conjE)
  have pa: "(called, res) =
      (case e of
         Some err \<Rightarrow> (invoked st', Inl err)
       | None \<Rightarrow>
           (case predicted_new_tests st' of
              None \<Rightarrow> (invoked st', Inl (ColumnKeyError ''predicted_new_tests''))
            | Some col \<Rightarrow> (invoked st', Inr (zip (map fst (df_rows df)) col, results st'))))"
    using assms unfolding predict_testcounts_all_regions_def run by simp
  have called: "called = invoked st'"
    using pa by (cases e; cases "predicted_new_tests st'") simp_all
  have ok: "e = None \<and> predicted_new_tests st' = Some (map snd combined) \<and> res_map = results st'
            \<and> combined = zip (map fst (df_rows df)) (map snd combined)
            \<and> length combined = length (df_rows df)"
    if "res = Inr (combined, res_map)" for combined res_map
  proof -
    from that pa obtain c where
      c: "e = None" "predicted_new_tests st' = Some c"
         "combined = zip (map fst (df_rows df)) c" "res_map = results st'"
      by (cases e; cases "predicted_new_tests st'") simp_all
    then have "length c = length (df_rows df)" using col by simp
    then show ?thesis using c by (simp add: map_snd_zip)
  qed
  have only: "\<forall>r \<in> set (invoked st'). 10 < n_train_of (xs_new_tests df r)"
  proof
    fix r assume "r \<in> set (invoked st')"
    then have "r \<in> set (filter (\<lambda>r. 10 < n_train_of (xs_new_tests df r)) (levels0 df))"
      unfolding flt by simp
    then show "10 < n_train_of (xs_new_tests df r)" by simp
  qed
  have fin': "(\<exists>ok. res = Inr ok) \<longrightarrow> rest = []"
  proof
    assume "\<exists>ok. res = Inr ok"
    then obtain combined res_map where "res = Inr (combined, res_map)" by auto
    from ok[OF this] fin show "rest = []" by simp
  qed
  have first: "\<exists>rest. filter (\<lambda>r. 10 < n_train_of (xs_new_tests df r)) (levels0 df) = called @ rest
                 \<and> ((\<exists>ok. res = Inr ok) \<longrightarrow> rest = [])"
    using flt fin' unfolding called by blast
  have second: "\<forall>region. n_train_of (xs_new_tests df region) \<le> 10 \<longrightarrow> region \<notin> set called"
    using only unfolding called by auto
  have rows: "map_of res_map region = None
                 \<and> length combined = length (df_rows df)
                 \<and> (\<forall>i<length (df_rows df).
                       fst (fst (df_rows df ! i)) = region \<longrightarrow>
                         combined ! i = (fst (df_rows df ! i), input_column df i))"
    if r: "res = Inr (combined, res_map)" and n: "n_train_of (xs_new_tests df region) \<le> 10"
    for combined res_map region
  proof -
    note o = ok[OF r]
    have notin: "region \<notin> set (invoked st')" using only n by auto
    then have "region \<notin> fst ` set res_map" using keys o by auto
    then have m: "map_of res_map region = None" by (simp add: map_of_eq_None_iff)
    have len: "length combined = length (df_rows df)" using o by simp
    have "combined ! i = (fst (df_rows df ! i), input_column df i)"
      if i: "i < length (df_rows df)" and reg: "fst (fst (df_rows df ! i)) = region" for i
    proof -
      have "combined ! i = (map fst (df_rows df) ! i, map snd combined ! i)"
        using o i len by (metis length_map nth_zip)
      moreover have "map snd combined ! i = input_column df i"
        using col o i reg notin by auto
      ultimately show ?thesis using i by simp
    qed
    then show ?thesis using m len by blast
  qed
  have "map_of res_map region = None
                 \<and> length combined = length (df_rows df)
                 \<and> (\<forall>i<length (df_rows df).
                       fst (fst (df_rows df ! i)) = region \<longrightarrow>
                         combined ! i = (fst (df_rows df ! i), input_column df i))"
    if "res = Inr (combined, res_map) \<and> n_train_of (xs_new_tests df region) \<le> 10"
    for combined res_map region
    using that rows[of combined res_map region] by simp
  then have third: "\<forall>combined res_map region.
               res = Inr (combined, res_map) \<and> n_train_of (xs_new_tests df region) \<le> 10 \<longrightarrow>
                 map_of res_map region = None
                 \<and> length combined = length (df_rows df)
                 \<and> (\<forall>i<length (df_rows df).
                       fst (fst (df_rows df ! i)) = region \<longrightarrow>
                         combined ! i = (fst (df_rows df ! i), input_column df i))"
    by (intro allI impI)
  show ?thesis using first second third by (intro conjI)
qed

theorem imputation_threshold_witness:
  "n_train_of (xs_new_tests ex_df ''NY'') = 11 \<and> n_train_of (xs_new_tests ex_df ''WY'') = 5
   \<and> levels0 ex_df = [''NY'', ''WY'']
   \<and> fst (predict_testcounts_all_regions ex_env ex_df ''US'' no_overrides) = [''NY'']
   \<and> filter (\<lambda>r. 10 < n_train_of (xs_new_tests ex_df r)) (levels0 ex_df) = [''NY'']
   \<and> ''WY'' \<notin> set (fst (predict_testcounts_all_regions ex_env ex_df ''US'' no_overrides))"
  using imputation_threshold [OF ex_df_run] ex_df_counts
  by (simp add: ex_df_run)

end
